theory Spec2Isabelle
  imports Main "HOL-Library.Sublist"
begin

section \<open>Python values used by the ETL core\<close>

text \<open>
  Exceptions are values. \<open>ValueError\<close> carries the message the source raises it with;
  \<open>TypeError\<close> is what Python raises when \<open>None\<close> is called.
\<close>

datatype error = ValueError string | TypeError string

text \<open>
  An optional string argument (\<open>str | None\<close>) is a \<open>string option\<close>. Python's truth
  test on it (\<open>not bucket\<close>, \<open>bool(latest_hash())\<close>) is false for \<open>None\<close> and for the
  empty string.
\<close>

definition truthy :: "string option \<Rightarrow> bool" where
  "truthy v = (case v of None \<Rightarrow> False | Some s \<Rightarrow> s \<noteq> [])"

text \<open>
  \<open>pathlib\<close> paths are kept symbolic: \<open>JoinPath p s\<close> is \<open>p.joinpath(s)\<close>.
\<close>

datatype pypath = Path string | JoinPath pypath string

text \<open>
  A metadata dictionary maps string keys to values; \<open>PyNone\<close> is Python's \<open>None\<close>.
\<close>

type_synonym pydict = "string \<rightharpoonup> string"

datatype pyval = PyNone | PyDict pydict

text \<open>
  \<open>d.update(other)\<close> changes \<open>d\<close> in place, later values overriding earlier ones, and
  returns \<open>None\<close>. The model returns the changed receiver together with the call's value.
\<close>

definition dict_update :: "pydict \<Rightarrow> pydict \<Rightarrow> pydict \<times> pyval" where
  "dict_update d other = (d ++ other, PyNone)"

section \<open>Effects\<close>

text \<open>
  Calls into collaborators (logging, the array-store and filesystem libraries, the
  content-addressed client, the phases a concrete dataset source implements) are recorded
  as events, in the order the source performs them. Handles created by a library carry
  the number they were allocated with, which stands for Python object identity.
\<close>

datatype event =
    SuperInit
  | LogToConsole
  | SetRootLogLevel int
  | SetExceptHook
  | CpuCount
  | Info string
  | Print string
  | LogToFile "int option"
  | UpdateLocalInput
  | OnlyUpdateMetadata
  | PrepareInputFiles
  | CreateZarrJson
  | Parse
  | NewS3FileSystem nat
  | NewS3Map nat
  | NewLocalFileSystem nat
  | GetMapper nat
  | GetIpfsMapper nat
  | LatestHash
  | SetRoot nat string

datatype filesystem =
    S3FileSystem nat "(string \<times> string) option"
  | LocalFileSystem nat

datatype mapper =
    S3Map nat string filesystem
  | FSMap nat pypath filesystem
  | IPLDStore nat string "string option"

text \<open>
  The world outside the process: the allocation counter, \<open>os.environ\<close>, the hash the
  published pointer of the dataset currently resolves to (what \<open>dm.latest_hash()\<close>
  returns; the method lives in a mixin outside these files), the chunker the
  content-addressed client uses when none is requested, and the events so far.
\<close>

record world =
  next_id :: nat
  environ :: "string \<rightharpoonup> string"
  latest :: "string option"
  ipfs_default_chunker :: string
  trace :: "event list"

definition emit :: "event \<Rightarrow> world \<Rightarrow> world" where
  "emit e w = w\<lparr>trace := trace w @ [e]\<rparr>"

definition fresh :: "world \<Rightarrow> nat \<times> world" where
  "fresh w = (next_id w, w\<lparr>next_id := Suc (next_id w)\<rparr>)"

section \<open>Store interfaces (utils/store.py)\<close>

text \<open>
  \<open>hasattr(self, "_fs")\<close> and \<open>hasattr(self, "_mapper")\<close> are the \<open>option\<close> fields:
  \<open>None\<close> is an attribute that has not been set.
\<close>

record S3_store =
  bucket :: string
  s3_fs :: "filesystem option"
  s3_mapper :: "mapper option"

record Local_store =
  local_fs :: "filesystem option"
  local_mapper :: "mapper option"

datatype store = Local Local_store | IPLD | S3 S3_store

text \<open>
  \<open>S3.__init__\<close>: the base initialiser stores the manager, then the bucket is checked.
\<close>

definition S3_init :: "string option \<Rightarrow> error + S3_store" where
  "S3_init b =
     (if \<not> truthy b then Inl (ValueError ''Must provide bucket name if parsing to S3'')
      else case b of
             None \<Rightarrow> Inl (ValueError ''Must provide bucket name if parsing to S3'')
           | Some n \<Rightarrow> Inr \<lparr>bucket = n, s3_fs = None, s3_mapper = None\<rparr>)"

text \<open>\<open>S3.url\<close>; the argument is \<open>self.dm.json_key()\<close>.\<close>

definition S3_url :: "string \<Rightarrow> S3_store \<Rightarrow> string" where
  "S3_url json_key_dm s = ''s3://'' @ bucket s @ ''/datasets/'' @ json_key_dm @ ''.zarr''"

section \<open>The dataset manager (dataset_manager.py)\<close>

text \<open>
  A dataset source class: its \<open>name()\<close>, its \<open>json_key()\<close> and its direct subclasses
  (\<open>cls.__subclasses__()\<close>, in order).
\<close>

datatype dataset_class =
  DatasetClass (name: string) (json_key: string) (subclasses: "dataset_class list")

type_synonym chunks = "(string \<times> nat) list"

record manager =
  cls :: dataset_class
  new_files :: "string list"
  custom_output_path :: "string option"
  custom_latest_hash :: "string option"
  custom_input_path :: "string option"
  rebuild_requested :: bool
  store :: store
  overwrite_allowed :: bool
  requested_dask_chunks :: chunks
  requested_zarr_chunks :: chunks
  requested_ipfs_chunker :: "string option"
  dask_num_threads :: nat
  dask_num_workers :: nat
  metadata :: "pyval option"

text \<open>The parameters of \<open>DatasetManager.__init__\<close>.\<close>

record init_args =
  requested_dask_chunks_arg :: chunks
  requested_zarr_chunks_arg :: chunks
  requested_ipfs_chunker_arg :: "string option"
  rebuild_requested_arg :: bool
  custom_output_path_arg :: "string option"
  custom_latest_hash_arg :: "string option"
  custom_input_path_arg :: "string option"
  console_log_arg :: bool
  global_log_level_arg :: int
  store_arg :: "string option"
  s3_bucket_name_arg :: "string option"
  allow_overwrite_arg :: bool

text \<open>The defaults of the signature; \<open>logging.DEBUG\<close> is 10.\<close>

definition default_args :: "chunks \<Rightarrow> chunks \<Rightarrow> init_args" where
  "default_args dask zarr =
     \<lparr>requested_dask_chunks_arg = dask, requested_zarr_chunks_arg = zarr,
      requested_ipfs_chunker_arg = None, rebuild_requested_arg = False,
      custom_output_path_arg = None, custom_latest_hash_arg = None,
      custom_input_path_arg = None, console_log_arg = True, global_log_level_arg = 10,
      store_arg = None, s3_bucket_name_arg = None, allow_overwrite_arg = False\<rparr>"

definition store_error_message :: string where
  "store_error_message = ''Store must be one of 'local', 'ipld', or 's3'' @ [CHR 0x27]"

definition is_IPLD :: "store \<Rightarrow> bool" where
  "is_IPLD s = (case s of IPLD \<Rightarrow> True | _ \<Rightarrow> False)"

text \<open>
  \<open>DatasetManager.__init__\<close> for an instance of class \<open>c\<close> on a machine with \<open>cpus\<close>
  CPUs. The result is the exception raised or the initialised manager, with the events
  performed up to that point. The \<open>metadata\<close> attribute is not set by the initialiser.
  \<open>int(cpu_count() * 0.75)\<close> is \<open>cpus * 3 div 4\<close>. The five floating-point Dask
  thresholds are constants no operation below reads and are left out.
\<close>

definition DatasetManager_init ::
  "dataset_class \<Rightarrow> nat \<Rightarrow> init_args \<Rightarrow> (error + manager) \<times> event list" where
  "DatasetManager_init c cpus a =
     (let made =
        (if store_arg a = None \<or> store_arg a = Some ''local''
           then Inr (Local \<lparr>local_fs = None, local_mapper = None\<rparr>)
         else if store_arg a = Some ''ipld'' then Inr IPLD
         else if store_arg a = Some ''s3''
           then (case S3_init (s3_bucket_name_arg a) of
                   Inl e \<Rightarrow> Inl e
                 | Inr s \<Rightarrow> Inr (S3 s))
         else Inl (ValueError store_error_message))
      in case made of
           Inl e \<Rightarrow> (Inl e, [SuperInit])
         | Inr st \<Rightarrow>
             (Inr \<lparr>cls = c, new_files = [],
                   custom_output_path = custom_output_path_arg a,
                   custom_latest_hash = custom_latest_hash_arg a,
                   custom_input_path = custom_input_path_arg a,
                   rebuild_requested = rebuild_requested_arg a,
                   store = st,
                   overwrite_allowed = (allow_overwrite_arg a \<or> is_IPLD st),
                   requested_dask_chunks = requested_dask_chunks_arg a,
                   requested_zarr_chunks = requested_zarr_chunks_arg a,
                   requested_ipfs_chunker = requested_ipfs_chunker_arg a,
                   dask_num_threads = max 1 (cpus * 3 div 4),
                   dask_num_workers = 1,
                   metadata = None\<rparr>,
              [SuperInit] @ (if console_log_arg a then [LogToConsole] else [])
                @ [SetRootLogLevel (global_log_level_arg a), SetExceptHook, CpuCount]))"

text \<open>Which of the three interfaces a store is.\<close>

datatype store_kind = LocalKind | IPLDKind | S3Kind

definition kind_of :: "store \<Rightarrow> store_kind" where
  "kind_of s = (case s of Local _ \<Rightarrow> LocalKind | IPLD \<Rightarrow> IPLDKind | S3 _ \<Rightarrow> S3Kind)"

section \<open>Mappers of the three stores (utils/store.py)\<close>

text \<open>
  \<open>S3.fs\<close>. \<open>refresh or not hasattr(self, "_fs")\<close> holds exactly when the cached
  handle, disregarded under \<open>refresh\<close>, is missing. The credentials are read from the
  environment; a missing variable (\<open>KeyError\<close>) falls back to \<open>S3FileSystem()\<close>.
\<close>

definition S3_fs :: "bool \<Rightarrow> S3_store \<Rightarrow> world \<Rightarrow> filesystem \<times> S3_store \<times> world" where
  "S3_fs refresh s w =
     (case (if refresh then None else s3_fs s) of
        Some fs \<Rightarrow> (fs, s, w)
      | None \<Rightarrow>
          (let (i, w1) = fresh w;
               fs = (case environ w ''AWS_ACCESS_KEY_ID'' of
                       None \<Rightarrow> S3FileSystem i None
                     | Some k \<Rightarrow>
                         (case environ w ''AWS_SECRET_ACCESS_KEY'' of
                            None \<Rightarrow> S3FileSystem i None
                          | Some sec \<Rightarrow> S3FileSystem i (Some (k, sec))));
               w2 = emit (Info ''Connected to S3 filesystem'') (emit (NewS3FileSystem i) w1)
           in (fs, s\<lparr>s3_fs := Some fs\<rparr>, w2)))"

text \<open>
  \<open>S3.mapper\<close>: \<open>s3fs.S3Map(root=self.url, s3=self.fs())\<close> unless a mapper is cached
  and no refresh is asked for. The first argument is \<open>self.dm.json_key()\<close>.
\<close>

definition S3_mapper ::
  "string \<Rightarrow> bool \<Rightarrow> S3_store \<Rightarrow> world \<Rightarrow> mapper \<times> S3_store \<times> world" where
  "S3_mapper json_key_dm refresh s w =
     (case (if refresh then None else s3_mapper s) of
        Some m \<Rightarrow> (m, s, w)
      | None \<Rightarrow>
          (let root = S3_url json_key_dm s;
               (fs, s1, w1) = S3_fs False s w;
               (i, w2) = fresh w1;
               m = S3Map i root fs
           in (m, s1\<lparr>s3_mapper := Some m\<rparr>, emit (NewS3Map i) w2)))"

text \<open>\<open>Local.fs\<close>, \<open>Local.path\<close> and \<open>Local.mapper\<close>.\<close>

definition Local_fs ::
  "bool \<Rightarrow> Local_store \<Rightarrow> world \<Rightarrow> filesystem \<times> Local_store \<times> world" where
  "Local_fs refresh l w =
     (case (if refresh then None else local_fs l) of
        Some fs \<Rightarrow> (fs, l, w)
      | None \<Rightarrow>
          (let (i, w1) = fresh w;
               fs = LocalFileSystem i
           in (fs, l\<lparr>local_fs := Some fs\<rparr>, emit (NewLocalFileSystem i) w1)))"

text \<open>The arguments are \<open>self.dm.output_path()\<close> and \<open>self.dm.name()\<close>.\<close>

definition Local_path :: "pypath \<Rightarrow> string \<Rightarrow> pypath" where
  "Local_path output_path_dm name_dm = JoinPath output_path_dm (name_dm @ ''.zarr'')"

definition Local_mapper ::
  "pypath \<Rightarrow> string \<Rightarrow> bool \<Rightarrow> Local_store \<Rightarrow> world \<Rightarrow> mapper \<times> Local_store \<times> world" where
  "Local_mapper output_path_dm name_dm refresh l w =
     (case (if refresh then None else local_mapper l) of
        Some m \<Rightarrow> (m, l, w)
      | None \<Rightarrow>
          (let (fs, l1, w1) = Local_fs False l w;
               p = Local_path output_path_dm name_dm;
               (i, w2) = fresh w1;
               m = FSMap i p fs
           in (m, l1\<lparr>local_mapper := Some m\<rparr>, emit (GetMapper i) w2)))"

text \<open>
  \<open>dm.latest_hash()\<close>: the call is recorded, its value is the hash the pointer
  resolves to. Nothing in the store interface changes that value.
\<close>

definition latest_hash :: "world \<Rightarrow> string option \<times> world" where
  "latest_hash w = (latest w, emit LatestHash w)"

text \<open>
  \<open>IPLD.mapper\<close>. The first argument is \<open>self.dm.requested_ipfs_chunker\<close>. The IPLD
  interface has no attribute of its own: every call asks the client for a mapper.
  \<open>set_root and self.dm.latest_hash()\<close> evaluates the call only when \<open>set_root\<close> holds,
  and the hash is looked up a second time for \<open>mapper.set_root\<close>.
\<close>

definition IPLD_mapper :: "string option \<Rightarrow> bool \<Rightarrow> world \<Rightarrow> mapper \<times> world" where
  "IPLD_mapper chunker set_root w =
     (let (i, w1) = fresh w;
          ch = (if truthy chunker then (case chunker of Some c \<Rightarrow> c | None \<Rightarrow> ipfs_default_chunker w)
                else ipfs_default_chunker w);
          w2 = emit (Info (''IPFS chunker is '' @ ch)) (emit (GetIpfsMapper i) w1)
      in if set_root then
           (let (h, w3) = latest_hash w2
            in if truthy h then
                 (let (h2, w4) = latest_hash w3
                  in case h2 of
                       Some r \<Rightarrow> (IPLDStore i ch (Some r), emit (SetRoot i r) w4)
                     | None \<Rightarrow> (IPLDStore i ch None, w4))
               else (IPLDStore i ch None, w3))
         else (IPLDStore i ch None, w2))"

text \<open>\<open>IPLD.has_existing\<close>: \<open>bool(self.dm.latest_hash())\<close>.\<close>

definition IPLD_has_existing :: "world \<Rightarrow> bool \<times> world" where
  "IPLD_has_existing w = (let (h, w1) = latest_hash w in (truthy h, w1))"

text \<open>The root a mapper of the content-addressed store is set to, and a mapper's identity.\<close>

definition root_of :: "mapper \<Rightarrow> string option" where
  "root_of m = (case m of IPLDStore _ _ r \<Rightarrow> r | _ \<Rightarrow> None)"

definition mapper_id :: "mapper \<Rightarrow> nat" where
  "mapper_id m = (case m of S3Map i _ _ \<Rightarrow> i | FSMap i _ _ \<Rightarrow> i | IPLDStore i _ _ \<Rightarrow> i)"

text \<open>
  The cached mapper of a store, if any, was allocated before the next handle will be.
\<close>

definition S3_below :: "S3_store \<Rightarrow> world \<Rightarrow> bool" where
  "S3_below s w = (case s3_mapper s of None \<Rightarrow> True | Some m \<Rightarrow> mapper_id m < next_id w)"

definition Local_below :: "Local_store \<Rightarrow> world \<Rightarrow> bool" where
  "Local_below l w = (case local_mapper l of None \<Rightarrow> True | Some m \<Rightarrow> mapper_id m < next_id w)"

section \<open>Metadata and name resolution (dataset_manager.py)\<close>

text \<open>
  \<open>populate_metadata\<close>. The first argument is the value of \<open>self.static_metadata\<close>.
  The branch taken when the attribute exists and is not \<open>None\<close> assigns the value
  \<open>update\<close> returns.
\<close>

definition populate_metadata :: "pydict \<Rightarrow> manager \<Rightarrow> manager" where
  "populate_metadata static_metadata m =
     (case metadata m of
        Some (PyDict d) \<Rightarrow> m\<lparr>metadata := Some (snd (dict_update d static_metadata))\<rparr>
      | _ \<Rightarrow> m\<lparr>metadata := Some (PyDict static_metadata)\<rparr>)"

text \<open>
  \<open>get_subclasses\<close>: for each direct subclass, first everything it yields, then the
  subclass itself.
\<close>

fun get_subclasses :: "dataset_class \<Rightarrow> dataset_class list" where
  "get_subclasses (DatasetClass n k subs) =
     concat (map (\<lambda>subclass. get_subclasses subclass @ [subclass]) subs)"

text \<open>
  The transitive subclass relation of the class tree: \<open>is_subclass s c\<close> when \<open>s\<close> is a
  direct subclass of \<open>c\<close> or a subclass of one.
\<close>

inductive is_subclass :: "dataset_class \<Rightarrow> dataset_class \<Rightarrow> bool" where
  direct: "s \<in> set (subclasses c) \<Longrightarrow> is_subclass s c"
| indirect: "is_subclass s d \<Longrightarrow> d \<in> set (subclasses c) \<Longrightarrow> is_subclass s c"

text \<open>Python's \<open>sub in s\<close> on strings.\<close>

fun str_contains :: "string \<Rightarrow> string \<Rightarrow> bool" where
  "str_contains sub [] = (sub = [])"
| "str_contains sub (c # cs) = (prefix sub (c # cs) \<or> str_contains sub cs)"

text \<open>The \<open>for\<close> loop of \<open>get_dataset_manager_from_name\<close> over what the generator yields.\<close>

fun scan_sources :: "string \<Rightarrow> dataset_class list \<Rightarrow> dataset_class option" where
  "scan_sources nm [] = None"
| "scan_sources nm (source # rest) =
     (if str_contains ''gfs'' nm
        then (if json_key source = nm then Some source else scan_sources nm rest)
      else (if name source = nm then Some source else scan_sources nm rest))"

text \<open>
  \<open>get_dataset_manager_from_name\<close>, called on an instance of class \<open>self_cls\<close>. Falling
  out of the loop prints the message and returns \<open>None\<close>.
\<close>

definition get_dataset_manager_from_name ::
  "dataset_class \<Rightarrow> string \<Rightarrow> dataset_class option \<times> event list" where
  "get_dataset_manager_from_name self_cls nm =
     (case scan_sources nm (get_subclasses self_cls) of
        Some source \<Rightarrow> (Some source, [])
      | None \<Rightarrow>
          (None, [Print (''failed to set manager from name '' @ nm
                          @ '', could not find corresponding class'')]))"

section \<open>The ETL run (dataset_manager.py)\<close>

text \<open>
  The parameters of \<open>run_etl\<close>. \<open>date_range\<close> is only handed to
  \<open>update_local_input\<close>, whose body is outside these files, and is left out.
\<close>

record run_args =
  dataset_name :: string
  store_name :: "string option"
  s3_bucket_name :: "string option"
  rebuild :: bool
  only_parse :: bool
  only_update_input :: bool
  only_prepare_input :: bool
  only_metadata :: bool
  custom_output_path_run :: "string option"
  custom_latest_hash_run :: "string option"

text \<open>
  What a concrete dataset source supplies and these files do not contain: the chunk sizes
  its initialiser hands to \<open>DatasetManager.__init__\<close>, and the values its
  \<open>update_local_input\<close> and \<open>parse\<close> return.
\<close>

record source_impl =
  dask_chunks_impl :: chunks
  zarr_chunks_impl :: chunks
  update_local_input_result :: bool
  parse_result :: bool

text \<open>
  Lines 476 to 495 of \<open>run_etl\<close>: the metadata, prepare and parse steps, given the
  manager's name and the parse trigger.
\<close>

definition etl_steps :: "string \<Rightarrow> source_impl \<Rightarrow> run_args \<Rightarrow> bool \<Rightarrow> event list" where
  "etl_steps mgr impl r trigger_parse =
     (if only_metadata r
        then [Info (''preparing metadata for '' @ mgr), OnlyUpdateMetadata,
              Info (''Metadata for '' @ mgr @ '' successfully updated'')]
      else [])
     @ (if only_prepare_input r
          then [Info ''Only prepare input requested, just preparing source files for parsing and creating corresponding Zarr JSON file'',
                PrepareInputFiles, CreateZarrJson]
        else [])
     @ (if trigger_parse
          then [Info (''parsing '' @ mgr), Parse]
               @ (if parse_result impl
                    then [Info (''Data for '' @ mgr @ '' successfully parsed'')]
                  else [Info ''no new data parsed, ending here''])
        else [Info ''no new data detected and parse not set to force, ending here''])"

text \<open>
  Lines 455 to 474: whether the update runs, and the early return under
  \<open>only_update_input\<close>.
\<close>

definition etl_update :: "string \<Rightarrow> source_impl \<Rightarrow> run_args \<Rightarrow> event list" where
  "etl_update mgr impl r =
     (if only_parse r
        then [Info ''only parse flag present,skipping update of local input and using locally available data'']
             @ etl_steps mgr impl r (only_parse r)
      else if only_metadata r
        then [Info ''only metadata flag present,skipping update of local input and parse to update metadata using the existing Zarr on IPFS'']
             @ etl_steps mgr impl r (only_parse r)
      else [Info ''updating local input'', UpdateLocalInput]
           @ (if only_update_input r
                then [Info ''ending here because only update local input flag is set'']
              else etl_steps mgr impl r (update_local_input_result impl)))"

definition none_call_message :: string where
  "none_call_message = [CHR 0x27] @ ''NoneType'' @ [CHR 0x27] @ '' object is not callable''"

text \<open>
  \<open>run_etl\<close>, called on an instance of class \<open>self_cls\<close>. Calling the \<open>None\<close> of a failed
  resolution raises \<open>TypeError\<close>. The class found is instantiated with the keyword
  arguments of the source; a concrete source's initialiser passes them on to
  \<open>DatasetManager.__init__\<close>, where \<open>rebuild\<close> is not a parameter and the others keep
  their defaults. \<open>str(manager)\<close> is the class's \<open>name()\<close>.
\<close>

definition run_etl ::
  "dataset_class \<Rightarrow> source_impl \<Rightarrow> nat \<Rightarrow> run_args \<Rightarrow> (error + unit) \<times> event list" where
  "run_etl self_cls impl cpus r =
     (let (found, ev0) = get_dataset_manager_from_name self_cls (dataset_name r)
      in case found of
           None \<Rightarrow> (Inl (TypeError none_call_message), ev0)
         | Some dataset_cls \<Rightarrow>
             (case DatasetManager_init dataset_cls cpus
                     ((default_args (dask_chunks_impl impl) (zarr_chunks_impl impl))
                        \<lparr>store_arg := store_name r,
                         s3_bucket_name_arg := s3_bucket_name r,
                         custom_output_path_arg := custom_output_path_run r,
                         custom_latest_hash_arg := custom_latest_hash_run r\<rparr>) of
                (Inl e, ev1) \<Rightarrow> (Inl e, ev0 @ ev1)
              | (Inr manager, ev1) \<Rightarrow>
                  (Inr (),
                   ev0 @ ev1 @ [LogToFile None, LogToFile (Some 10)]
                     @ etl_update (name (cls manager)) impl r)))"

text \<open>The calls of a trace that are phases of the run.\<close>

definition is_phase :: "event \<Rightarrow> bool" where
  "is_phase e = (e = UpdateLocalInput \<or> e = OnlyUpdateMetadata \<or> e = PrepareInputFiles
                  \<or> e = CreateZarrJson \<or> e = Parse)"

definition phases :: "event list \<Rightarrow> event list" where
  "phases tr = filter is_phase tr"

section \<open>A concrete source for the examples\<close>

text \<open>
  A class tree with one dataset source below the base class, the values its phases
  return, and a run of it on the local store with no flag set.
\<close>

definition chirps_tree :: dataset_class where
  "chirps_tree = DatasetClass ''DatasetManager'' ''DatasetManager-daily''
                   [DatasetClass ''chirps'' ''chirps-daily'' []]"

definition chirps_impl :: source_impl where
  "chirps_impl = \<lparr>dask_chunks_impl = [(''time'', 200)], zarr_chunks_impl = [(''time'', 50)],
                  update_local_input_result = False, parse_result = True\<rparr>"

definition chirps_run :: run_args where
  "chirps_run = \<lparr>dataset_name = ''chirps'', store_name = Some ''local'',
                 s3_bucket_name = None, rebuild = False, only_parse = False,
                 only_update_input = False, only_prepare_input = False,
                 only_metadata = False, custom_output_path_run = None,
                 custom_latest_hash_run = None\<rparr>"

text \<open>A world in which the dataset has a published hash and no credentials are set.\<close>

definition example_world :: world where
  "example_world = \<lparr>next_id = 0, environ = Map.empty, latest = Some ''bafyroot'',
                     ipfs_default_chunker = ''size-262144'', trace = []\<rparr>"

section \<open>Construction of the store\<close>

text \<open>
  C9. Constructing the S3 store with \<open>None\<close> or the empty string as bucket name raises the
  configuration error; the constructor performs no call into any library before the
  check (it is a function of the bucket alone). For every non-empty bucket name the
  store is constructed and its url is \<open>s3://<bucket>/datasets/<json_key>.zarr\<close>.
\<close>

theorem S3_init_bucket_and_url:
  "S3_init None = Inl (ValueError ''Must provide bucket name if parsing to S3'')
   \<and> S3_init (Some '''') = Inl (ValueError ''Must provide bucket name if parsing to S3'')
   \<and> (b \<noteq> '''' \<longrightarrow>
        (\<exists>s. S3_init (Some b) = Inr s
           \<and> S3_url k s = ''s3://'' @ b @ ''/datasets/'' @ k @ ''.zarr''))"
  by (simp add: S3_init_def truthy_def S3_url_def)

theorem S3_init_bucket_and_url_witness:
  "''arbol'' \<noteq> '''' \<and>
   (\<exists>s. S3_init (Some ''arbol'') = Inr s
      \<and> S3_url ''chirps-daily'' s = ''s3://arbol/datasets/chirps-daily.zarr'')"
  using S3_init_bucket_and_url [of "''arbol''" "''chirps-daily''"] by simp

section \<open>Construction of the manager\<close>

text \<open>
  C2. A manager constructed with \<open>store = "ipld"\<close> has \<open>overwrite_allowed = True\<close>
  whatever \<open>allow_overwrite\<close> is (construction with that store always succeeds and binds
  the IPLD interface); a manager bound to one of the other interfaces has
  \<open>overwrite_allowed\<close> equal to the \<open>allow_overwrite\<close> argument.
\<close>

theorem overwrite_allowed_ipld:
  "(store_arg a1 = Some ''ipld'' \<longrightarrow>
      (\<exists>m. fst (DatasetManager_init c n a1) = Inr m \<and> kind_of (store m) = IPLDKind
          \<and> overwrite_allowed m = True))
   \<and> (fst (DatasetManager_init c n a2) = Inr m2 \<and> kind_of (store m2) \<noteq> IPLDKind \<longrightarrow>
        overwrite_allowed m2 = allow_overwrite_arg a2)"
  by (auto simp: DatasetManager_init_def Let_def kind_of_def is_IPLD_def
           split: sum.splits if_splits store.splits)

theorem overwrite_allowed_ipld_witness:
  "store_arg ((default_args [] [])\<lparr>store_arg := Some ''ipld''\<rparr>) = Some ''ipld''
   \<and> (\<exists>m. fst (DatasetManager_init (DatasetClass ''chirps'' ''chirps-daily'' []) 4
                 ((default_args [] [])\<lparr>store_arg := Some ''ipld''\<rparr>)) = Inr m
          \<and> kind_of (store m) = IPLDKind \<and> overwrite_allowed m = True)
   \<and> (\<exists>m2. fst (DatasetManager_init (DatasetClass ''chirps'' ''chirps-daily'' []) 4
                 ((default_args [] [])\<lparr>allow_overwrite_arg := True\<rparr>)) = Inr m2
          \<and> kind_of (store m2) \<noteq> IPLDKind \<and> overwrite_allowed m2 = True)"
proof -
  let ?c = "DatasetClass ''chirps'' ''chirps-daily'' []"
  let ?a1 = "(default_args [] [])\<lparr>store_arg := Some ''ipld''\<rparr>"
  let ?a2 = "(default_args [] [])\<lparr>allow_overwrite_arg := True\<rparr>"
  obtain m2 where m2: "fst (DatasetManager_init ?c 4 ?a2) = Inr m2"
    and k2: "kind_of (store m2) \<noteq> IPLDKind"
    by (simp add: DatasetManager_init_def default_args_def kind_of_def)
  have a1: "store_arg ?a1 = Some ''ipld''" by simp
  have a2: "allow_overwrite_arg ?a2 = True" by simp
  from overwrite_allowed_ipld [of ?a1 ?c 4 ?a2 m2] a1 m2 k2 a2
  show ?thesis by auto
qed

text \<open>
  C3, as stated, fails: with \<open>store = "s3"\<close> and the default bucket name \<open>None\<close> no store
  of type S3 is bound; the S3 interface's own check raises.
\<close>

theorem store_s3_without_bucket_counterexample:
  "fst (DatasetManager_init (DatasetClass ''chirps'' ''chirps-daily'' []) 4
          ((default_args [] [])\<lparr>store_arg := Some ''s3''\<rparr>))
     = Inl (ValueError ''Must provide bucket name if parsing to S3'')"
  by (simp add: DatasetManager_init_def default_args_def S3_init_def truthy_def)

text \<open>
  C3, amended. \<open>"local"\<close> and \<open>"ipld"\<close> bind the Local and the IPLD interface; \<open>"s3"\<close>
  binds the S3 interface when the bucket name is non-empty, and raises the
  missing-bucket error when it is \<open>None\<close> or empty; every other string raises the
  error that names the accepted set. When construction raises, the only call made so
  far is the base-class initialiser: no logging set-up, no store, no store operation.
\<close>

theorem store_selection:
  "(\<exists>m. fst (DatasetManager_init c n (a\<lparr>store_arg := Some ''local''\<rparr>)) = Inr m
        \<and> kind_of (store m) = LocalKind)
   \<and> (\<exists>m. fst (DatasetManager_init c n (a\<lparr>store_arg := Some ''ipld''\<rparr>)) = Inr m
        \<and> kind_of (store m) = IPLDKind)
   \<and> (truthy b1 \<longrightarrow>
        (\<exists>m. fst (DatasetManager_init c n
                     (a\<lparr>store_arg := Some ''s3'', s3_bucket_name_arg := b1\<rparr>)) = Inr m
            \<and> kind_of (store m) = S3Kind))
   \<and> (\<not> truthy b2 \<longrightarrow>
        DatasetManager_init c n (a\<lparr>store_arg := Some ''s3'', s3_bucket_name_arg := b2\<rparr>)
          = (Inl (ValueError ''Must provide bucket name if parsing to S3''), [SuperInit]))
   \<and> (s \<noteq> ''local'' \<and> s \<noteq> ''ipld'' \<and> s \<noteq> ''s3'' \<longrightarrow>
        DatasetManager_init c n (a\<lparr>store_arg := Some s\<rparr>)
          = (Inl (ValueError store_error_message), [SuperInit]))"
  by (auto simp: DatasetManager_init_def kind_of_def S3_init_def truthy_def
           split: option.splits)

theorem store_selection_witness:
  "truthy (Some ''arbol'') \<and> \<not> truthy None
   \<and> ''gcs'' \<noteq> ''local'' \<and> ''gcs'' \<noteq> ''ipld'' \<and> ''gcs'' \<noteq> ''s3''
   \<and> (\<exists>m. fst (DatasetManager_init (DatasetClass ''chirps'' ''chirps-daily'' []) 4
                 ((default_args [] [])\<lparr>store_arg := Some ''s3'',
                                         s3_bucket_name_arg := Some ''arbol''\<rparr>)) = Inr m
          \<and> kind_of (store m) = S3Kind)
   \<and> DatasetManager_init (DatasetClass ''chirps'' ''chirps-daily'' []) 4
        ((default_args [] [])\<lparr>store_arg := Some ''s3'', s3_bucket_name_arg := None\<rparr>)
       = (Inl (ValueError ''Must provide bucket name if parsing to S3''), [SuperInit])
   \<and> DatasetManager_init (DatasetClass ''chirps'' ''chirps-daily'' []) 4
        ((default_args [] [])\<lparr>store_arg := Some ''gcs''\<rparr>)
       = (Inl (ValueError store_error_message), [SuperInit])"
proof -
  have h: "truthy (Some ''arbol'')" "\<not> truthy None"
    "''gcs'' \<noteq> ''local'' \<and> ''gcs'' \<noteq> ''ipld'' \<and> ''gcs'' \<noteq> ''s3''"
    by (simp_all add: truthy_def)
  from store_selection [of "DatasetClass ''chirps'' ''chirps-daily'' []" 4 "default_args [] []"
      "Some ''arbol''" None "''gcs''"] h
  show ?thesis by blast
qed

text \<open>
  C10. Constructing a manager with \<open>store = None\<close> does not fail and does exactly what
  \<open>store = "local"\<close> does: same manager, same events, bound to a Local interface.
\<close>

theorem store_none_is_local:
  "DatasetManager_init c n (a\<lparr>store_arg := None\<rparr>)
     = DatasetManager_init c n (a\<lparr>store_arg := Some ''local''\<rparr>)
   \<and> (\<exists>m. fst (DatasetManager_init c n (a\<lparr>store_arg := None\<rparr>)) = Inr m
         \<and> store m = Local \<lparr>local_fs = None, local_mapper = None\<rparr>)"
  by (simp add: DatasetManager_init_def)

section \<open>Metadata\<close>

text \<open>
  Whatever the accumulated metadata is, a second call never leaves what the first call
  left: the two branches of \<open>populate_metadata\<close> alternate.
\<close>

lemma populate_metadata_alternates:
  "metadata (populate_metadata s (populate_metadata s m)) \<noteq> metadata (populate_metadata s m)"
  by (auto simp: populate_metadata_def dict_update_def split: option.splits pyval.splits)

text \<open>
  C1. The claim is that calling \<open>populate_metadata\<close> twice leaves the metadata of one
  call. On a manager that has no metadata yet, one call leaves the static metadata, and a
  second call leaves \<open>None\<close>: the value \<open>dict.update\<close> returns is assigned to
  \<open>self.metadata\<close>.
\<close>

theorem populate_metadata_twice:
  "metadata (populate_metadata s (m\<lparr>metadata := None\<rparr>)) = Some (PyDict s)
   \<and> metadata (populate_metadata s (populate_metadata s (m\<lparr>metadata := None\<rparr>)))
       = Some PyNone"
  by (simp add: populate_metadata_def dict_update_def)

section \<open>Name resolution\<close>

lemma str_contains_sublist: "str_contains sub s = sublist sub s"
  by (induction s) (auto simp: sublist_Cons_right)

lemma scan_sources_find:
  "scan_sources nm xs =
     find (\<lambda>src. if str_contains ''gfs'' nm then json_key src = nm else name src = nm) xs"
  by (induction xs) auto

lemma get_subclasses_sound: "s \<in> set (get_subclasses c) \<Longrightarrow> is_subclass s c"
proof (induction c arbitrary: s rule: get_subclasses.induct)
  case (1 n k subs)
  then obtain d where d: "d \<in> set subs" and s: "s \<in> set (get_subclasses d) \<or> s = d"
    by auto
  from s show ?case
  proof
    assume "s \<in> set (get_subclasses d)"
    then have "is_subclass s d" using 1 d by blast
    then show ?thesis using d by (auto intro: is_subclass.indirect)
  next
    assume "s = d" then show ?thesis using d by (auto intro: is_subclass.direct)
  qed
qed

lemma get_subclasses_direct: "s \<in> set (subclasses c) \<Longrightarrow> s \<in> set (get_subclasses c)"
  by (cases c) auto

lemma get_subclasses_step:
  "s \<in> set (get_subclasses d) \<Longrightarrow> d \<in> set (subclasses c) \<Longrightarrow> s \<in> set (get_subclasses c)"
  by (cases c) auto

lemma get_subclasses_complete: "is_subclass s c \<Longrightarrow> s \<in> set (get_subclasses c)"
  by (induction rule: is_subclass.induct) (auto intro: get_subclasses_direct get_subclasses_step)


text \<open>
  C4. \<open>get_dataset_manager_from_name\<close> scans the transitive subclasses of the class it
  is called on. When the name contains \<open>gfs\<close> the result is the first of them whose
  \<open>json_key()\<close> equals the name, otherwise the first whose \<open>name()\<close> equals it. When none
  matches, the result is \<open>None\<close> and the diagnostic is printed; the function has no
  raising branch.
\<close>

theorem get_dataset_manager_from_name_resolution:
  "set (get_subclasses self_cls) = {s. is_subclass s self_cls}
   \<and> (sublist ''gfs'' nm \<longrightarrow>
        fst (get_dataset_manager_from_name self_cls nm)
          = find (\<lambda>source. json_key source = nm) (get_subclasses self_cls))
   \<and> (\<not> sublist ''gfs'' nm \<longrightarrow>
        fst (get_dataset_manager_from_name self_cls nm)
          = find (\<lambda>source. name source = nm) (get_subclasses self_cls))
   \<and> ((\<forall>source \<in> set (get_subclasses self_cls).
          (if sublist ''gfs'' nm then json_key source else name source) \<noteq> nm) \<longrightarrow>
        get_dataset_manager_from_name self_cls nm
          = (None, [Print (''failed to set manager from name '' @ nm
                            @ '', could not find corresponding class'')]))"
proof -
  have tree: "set (get_subclasses self_cls) = {s. is_subclass s self_cls}"
    using get_subclasses_sound get_subclasses_complete by blast
  have res: "fst (get_dataset_manager_from_name self_cls nm)
      = find (\<lambda>src. if sublist ''gfs'' nm then json_key src = nm else name src = nm)
          (get_subclasses self_cls)"
    by (simp add: get_dataset_manager_from_name_def scan_sources_find str_contains_sublist
             split: option.splits)
  have miss: "get_dataset_manager_from_name self_cls nm
          = (None, [Print (''failed to set manager from name '' @ nm
                            @ '', could not find corresponding class'')])"
    if "\<forall>source \<in> set (get_subclasses self_cls).
          (if sublist ''gfs'' nm then json_key source else name source) \<noteq> nm"
  proof -
    have "scan_sources nm (get_subclasses self_cls) = None"
      using that by (auto simp: scan_sources_find str_contains_sublist find_None_iff)
    then show ?thesis by (simp add: get_dataset_manager_from_name_def)
  qed
  show ?thesis using tree res miss by simp
qed

theorem get_dataset_manager_from_name_resolution_witness:
  "sublist ''gfs'' ''gfs_x''
   \<and> fst (get_dataset_manager_from_name
      (DatasetClass ''DatasetManager'' ''DatasetManager-daily''
        [DatasetClass ''chirps'' ''chirps-daily''
           [DatasetClass ''chirps_final_05'' ''chirps_final_05-daily'' []],
         DatasetClass ''gfs'' ''gfs_x'' []]) ''gfs_x'') = Some (DatasetClass ''gfs'' ''gfs_x'' [])
   \<and> \<not> sublist ''gfs'' ''chirps''
   \<and> fst (get_dataset_manager_from_name
      (DatasetClass ''DatasetManager'' ''DatasetManager-daily''
        [DatasetClass ''chirps'' ''chirps-daily''
           [DatasetClass ''chirps_final_05'' ''chirps_final_05-daily'' []],
         DatasetClass ''gfs'' ''gfs_x'' []]) ''chirps'')
       = Some (DatasetClass ''chirps'' ''chirps-daily''
           [DatasetClass ''chirps_final_05'' ''chirps_final_05-daily'' []])
   \<and> get_dataset_manager_from_name
      (DatasetClass ''DatasetManager'' ''DatasetManager-daily''
        [DatasetClass ''chirps'' ''chirps-daily''
           [DatasetClass ''chirps_final_05'' ''chirps_final_05-daily'' []],
         DatasetClass ''gfs'' ''gfs_x'' []]) ''era5''
       = (None, [Print ''failed to set manager from name era5, could not find corresponding class''])"
proof -
  let ?T = "DatasetClass ''DatasetManager'' ''DatasetManager-daily''
        [DatasetClass ''chirps'' ''chirps-daily''
           [DatasetClass ''chirps_final_05'' ''chirps_final_05-daily'' []],
         DatasetClass ''gfs'' ''gfs_x'' []]"
  have g: "sublist ''gfs'' ''gfs_x''" "\<not> sublist ''gfs'' ''chirps''" "\<not> sublist ''gfs'' ''era5''"
    by (simp_all add: str_contains_sublist [symmetric])
  have n: "\<forall>source \<in> set (get_subclasses ?T).
          (if sublist ''gfs'' ''era5'' then json_key source else name source) \<noteq> ''era5''"
    using g by simp
  from get_dataset_manager_from_name_resolution [of ?T "''gfs_x''"]
       get_dataset_manager_from_name_resolution [of ?T "''chirps''"]
       get_dataset_manager_from_name_resolution [of ?T "''era5''"] g n
  show ?thesis by simp
qed

section \<open>The ETL run\<close>

text \<open>
  The phases of a run: resolution, construction and the log files contribute none, so
  the phases of a run that returns are those of lines 455 to 495, and a run that raises
  has performed none.
\<close>

lemma phases_append: "phases (xs @ ys) = phases xs @ phases ys"
  by (simp add: phases_def)

lemma phases_resolution: "phases (snd (get_dataset_manager_from_name c nm)) = []"
  by (simp add: get_dataset_manager_from_name_def phases_def is_phase_def split: option.splits)

lemma phases_init: "phases (snd (DatasetManager_init c n a)) = []"
  by (simp add: DatasetManager_init_def Let_def phases_def is_phase_def split: sum.splits)

lemma phases_etl_steps:
  "phases (etl_steps mgr impl r t) =
     (if only_metadata r then [OnlyUpdateMetadata] else [])
     @ (if only_prepare_input r then [PrepareInputFiles, CreateZarrJson] else [])
     @ (if t then [Parse] else [])"
  by (simp add: etl_steps_def phases_def is_phase_def)

lemma phases_etl_update:
  "phases (etl_update mgr impl r) =
     (if only_parse r \<or> only_metadata r then phases (etl_steps mgr impl r (only_parse r))
      else if only_update_input r then [UpdateLocalInput]
      else UpdateLocalInput # phases (etl_steps mgr impl r (update_local_input_result impl)))"
  by (simp add: etl_update_def phases_append) (simp add: phases_def is_phase_def)

lemma init_cls: "DatasetManager_init c n a = (Inr m, ev) \<Longrightarrow> cls m = c"
  by (auto simp: DatasetManager_init_def Let_def split: sum.splits)

lemma run_etl_raises:
  assumes "fst (run_etl c impl n r) = Inl e"
  shows "phases (snd (run_etl c impl n r)) = []"
proof -
  obtain found ev0 where g: "get_dataset_manager_from_name c (dataset_name r) = (found, ev0)"
    by (cases "get_dataset_manager_from_name c (dataset_name r)")
  have p0: "phases ev0 = []" using phases_resolution [of c "dataset_name r"] g by simp
  show ?thesis
  proof (cases found)
    case None
    then show ?thesis using g p0 by (simp add: run_etl_def)
  next
    case (Some d)
    let ?a = "(default_args (dask_chunks_impl impl) (zarr_chunks_impl impl))
                \<lparr>store_arg := store_name r, s3_bucket_name_arg := s3_bucket_name r,
                 custom_output_path_arg := custom_output_path_run r,
                 custom_latest_hash_arg := custom_latest_hash_run r\<rparr>"
    obtain res ev1 where i: "DatasetManager_init d n ?a = (res, ev1)"
      by (cases "DatasetManager_init d n ?a")
    have p1: "phases ev1 = []" using phases_init [of d n ?a] i by simp
    from assms g Some i obtain e' where "res = Inl e'"
      by (cases res) (simp_all add: run_etl_def)
    then show ?thesis using g Some i p0 p1 by (simp add: run_etl_def phases_append)
  qed
qed

lemma run_etl_returns:
  assumes "fst (run_etl c impl n r) = Inr ()"
  shows "\<exists>d. fst (get_dataset_manager_from_name c (dataset_name r)) = Some d
           \<and> phases (snd (run_etl c impl n r)) = phases (etl_update (name d) impl r)
           \<and> (\<exists>pre. snd (run_etl c impl n r) = pre @ etl_update (name d) impl r)"
proof -
  obtain found ev0 where g: "get_dataset_manager_from_name c (dataset_name r) = (found, ev0)"
    by (cases "get_dataset_manager_from_name c (dataset_name r)")
  have p0: "phases ev0 = []" using phases_resolution [of c "dataset_name r"] g by simp
  from assms g obtain d where d: "found = Some d"
    by (cases found) (simp_all add: run_etl_def)
  let ?a = "(default_args (dask_chunks_impl impl) (zarr_chunks_impl impl))
              \<lparr>store_arg := store_name r, s3_bucket_name_arg := s3_bucket_name r,
               custom_output_path_arg := custom_output_path_run r,
               custom_latest_hash_arg := custom_latest_hash_run r\<rparr>"
  obtain res ev1 where i: "DatasetManager_init d n ?a = (res, ev1)"
    by (cases "DatasetManager_init d n ?a")
  have p1: "phases ev1 = []" using phases_init [of d n ?a] i by simp
  from assms g d i obtain m where m: "res = Inr m"
    by (cases res) (simp_all add: run_etl_def)
  have c: "cls m = d" using init_cls i m by blast
  have tr: "snd (run_etl c impl n r)
      = ev0 @ ev1 @ [LogToFile None, LogToFile (Some 10)] @ etl_update (name d) impl r"
    using g d i m c by (simp add: run_etl_def)
  have "phases ([LogToFile None, LogToFile (Some 10)] @ etl_update (name d) impl r)
      = phases (etl_update (name d) impl r)"
    by (simp add: phases_def is_phase_def)
  then have "phases (snd (run_etl c impl n r)) = phases (etl_update (name d) impl r)"
    using tr p0 p1 by (simp only: phases_append append_Nil)
  moreover have "\<exists>pre. snd (run_etl c impl n r) = pre @ etl_update (name d) impl r"
    using tr by (metis append.assoc)
  ultimately show ?thesis using g d by simp
qed

text \<open>
  C5, as stated, fails: with \<open>only_metadata\<close> and \<open>only_parse\<close> both set, the run goes
  on after the metadata refresh and parses.
\<close>

theorem run_etl_only_metadata_counterexample:
  "only_metadata (chirps_run\<lparr>only_metadata := True, only_parse := True\<rparr>)
   \<and> run_etl chirps_tree chirps_impl 4 (chirps_run\<lparr>only_metadata := True, only_parse := True\<rparr>)
     = (Inr (),
        [SuperInit, LogToConsole, SetRootLogLevel 10, SetExceptHook, CpuCount,
         LogToFile None, LogToFile (Some 10),
         Info ''only parse flag present,skipping update of local input and using locally available data'',
         Info ''preparing metadata for chirps'', OnlyUpdateMetadata,
         Info ''Metadata for chirps successfully updated'',
         Info ''parsing chirps'', Parse,
         Info ''Data for chirps successfully parsed''])"
  by (simp add: chirps_tree_def chirps_impl_def chirps_run_def run_etl_def
        get_dataset_manager_from_name_def DatasetManager_init_def default_args_def
        etl_update_def etl_steps_def)

text \<open>
  C5, amended. A run with \<open>only_metadata\<close> set that returns never updates the local
  input and performs the metadata refresh; after it, \<open>prepare_input_files\<close> and
  \<open>create_zarr_json\<close> run exactly when \<open>only_prepare_input\<close> is set as well, and
  \<open>parse\<close> runs exactly when \<open>only_parse\<close> is set as well. With neither of them set the
  refresh is the only phase. A run that raises (no class of that name, or a rejected
  store) has performed no phase.
\<close>

theorem run_etl_only_metadata:
  "(only_metadata r \<and> fst (run_etl c impl n r) = Inr () \<longrightarrow>
      phases (snd (run_etl c impl n r))
        = [OnlyUpdateMetadata]
          @ (if only_prepare_input r then [PrepareInputFiles, CreateZarrJson] else [])
          @ (if only_parse r then [Parse] else []))
   \<and> (only_metadata r \<and> fst (run_etl c impl n r) = Inl e \<longrightarrow>
        phases (snd (run_etl c impl n r)) = [])"
proof (intro conjI impI)
  assume a: "only_metadata r \<and> fst (run_etl c impl n r) = Inr ()"
  then obtain d where "phases (snd (run_etl c impl n r)) = phases (etl_update (name d) impl r)"
    using run_etl_returns by blast
  then show "phases (snd (run_etl c impl n r))
        = [OnlyUpdateMetadata]
          @ (if only_prepare_input r then [PrepareInputFiles, CreateZarrJson] else [])
          @ (if only_parse r then [Parse] else [])"
    using a by (simp add: phases_etl_update phases_etl_steps)
next
  assume "only_metadata r \<and> fst (run_etl c impl n r) = Inl e"
  then show "phases (snd (run_etl c impl n r)) = []" using run_etl_raises by blast
qed

theorem run_etl_only_metadata_witness:
  "only_metadata (chirps_run\<lparr>only_metadata := True\<rparr>)
   \<and> fst (run_etl chirps_tree chirps_impl 4 (chirps_run\<lparr>only_metadata := True\<rparr>)) = Inr ()
   \<and> phases (snd (run_etl chirps_tree chirps_impl 4 (chirps_run\<lparr>only_metadata := True\<rparr>)))
       = [OnlyUpdateMetadata]
   \<and> only_metadata (chirps_run\<lparr>only_metadata := True, store_name := Some ''gcs''\<rparr>)
   \<and> fst (run_etl chirps_tree chirps_impl 4
             (chirps_run\<lparr>only_metadata := True, store_name := Some ''gcs''\<rparr>))
       = Inl (ValueError store_error_message)
   \<and> phases (snd (run_etl chirps_tree chirps_impl 4
                (chirps_run\<lparr>only_metadata := True, store_name := Some ''gcs''\<rparr>))) = []"
proof -
  let ?r1 = "chirps_run\<lparr>only_metadata := True\<rparr>"
  let ?r2 = "chirps_run\<lparr>only_metadata := True, store_name := Some ''gcs''\<rparr>"
  have h1: "only_metadata ?r1 \<and> fst (run_etl chirps_tree chirps_impl 4 ?r1) = Inr ()"
    by (simp add: chirps_tree_def chirps_impl_def chirps_run_def run_etl_def
          get_dataset_manager_from_name_def DatasetManager_init_def default_args_def)
  have f1: "\<not> only_prepare_input ?r1 \<and> \<not> only_parse ?r1"
    by (simp add: chirps_run_def)
  have h2: "only_metadata ?r2
      \<and> fst (run_etl chirps_tree chirps_impl 4 ?r2) = Inl (ValueError store_error_message)"
    by (simp add: chirps_tree_def chirps_impl_def chirps_run_def run_etl_def
          get_dataset_manager_from_name_def DatasetManager_init_def default_args_def)
  from run_etl_only_metadata [of ?r1 chirps_tree chirps_impl 4] h1 f1
  have p1: "phases (snd (run_etl chirps_tree chirps_impl 4 ?r1)) = [OnlyUpdateMetadata]"
    by simp
  from run_etl_only_metadata [of ?r2 chirps_tree chirps_impl 4 "ValueError store_error_message"] h2
  have p2: "phases (snd (run_etl chirps_tree chirps_impl 4 ?r2)) = []"
    by blast
  show ?thesis using h1 h2 p1 p2 by blast
qed

text \<open>
  C6, as stated, fails: with \<open>only_update_input\<close> and \<open>only_parse\<close> both set, the update
  is skipped and the run parses.
\<close>

theorem run_etl_only_update_input_counterexample:
  "only_update_input (chirps_run\<lparr>only_update_input := True, only_parse := True\<rparr>)
   \<and> run_etl chirps_tree chirps_impl 4
        (chirps_run\<lparr>only_update_input := True, only_parse := True\<rparr>)
     = (Inr (),
        [SuperInit, LogToConsole, SetRootLogLevel 10, SetExceptHook, CpuCount,
         LogToFile None, LogToFile (Some 10),
         Info ''only parse flag present,skipping update of local input and using locally available data'',
         Info ''parsing chirps'', Parse,
         Info ''Data for chirps successfully parsed''])"
  by (simp add: chirps_tree_def chirps_impl_def chirps_run_def run_etl_def
        get_dataset_manager_from_name_def DatasetManager_init_def default_args_def
        etl_update_def etl_steps_def)

text \<open>
  C6, amended. A run with \<open>only_update_input\<close> set and neither \<open>only_parse\<close> nor
  \<open>only_metadata\<close> set, that gets as far as its phases, calls \<open>update_local_input\<close> and
  returns: the update is its only phase and the note that it ends there is its last
  event, whatever \<open>update_local_input\<close> returns.
\<close>

theorem run_etl_only_update_input:
  "only_update_input r \<and> \<not> only_parse r \<and> \<not> only_metadata r
     \<and> fst (run_etl c impl n r) = Inr () \<longrightarrow>
   phases (snd (run_etl c impl n r)) = [UpdateLocalInput]
   \<and> last (snd (run_etl c impl n r))
       = Info ''ending here because only update local input flag is set''"
proof
  assume a: "only_update_input r \<and> \<not> only_parse r \<and> \<not> only_metadata r
     \<and> fst (run_etl c impl n r) = Inr ()"
  then obtain d pre where p: "phases (snd (run_etl c impl n r)) = phases (etl_update (name d) impl r)"
    and t: "snd (run_etl c impl n r) = pre @ etl_update (name d) impl r"
    using run_etl_returns by blast
  have "etl_update (name d) impl r = [Info ''updating local input'', UpdateLocalInput,
          Info ''ending here because only update local input flag is set'']"
    using a by (simp add: etl_update_def)
  then show "phases (snd (run_etl c impl n r)) = [UpdateLocalInput]
   \<and> last (snd (run_etl c impl n r))
       = Info ''ending here because only update local input flag is set''"
    using p t by (simp add: phases_def is_phase_def)
qed

theorem run_etl_only_update_input_witness:
  "only_update_input (chirps_run\<lparr>only_update_input := True\<rparr>)
   \<and> \<not> only_parse (chirps_run\<lparr>only_update_input := True\<rparr>)
   \<and> \<not> only_metadata (chirps_run\<lparr>only_update_input := True\<rparr>)
   \<and> fst (run_etl chirps_tree (chirps_impl\<lparr>update_local_input_result := True\<rparr>) 4
             (chirps_run\<lparr>only_update_input := True\<rparr>)) = Inr ()
   \<and> phases (snd (run_etl chirps_tree (chirps_impl\<lparr>update_local_input_result := True\<rparr>) 4
                (chirps_run\<lparr>only_update_input := True\<rparr>))) = [UpdateLocalInput]"
proof -
  let ?r = "chirps_run\<lparr>only_update_input := True\<rparr>"
  let ?i = "chirps_impl\<lparr>update_local_input_result := True\<rparr>"
  have h: "only_update_input ?r \<and> \<not> only_parse ?r \<and> \<not> only_metadata ?r
      \<and> fst (run_etl chirps_tree ?i 4 ?r) = Inr ()"
    by (simp add: chirps_tree_def chirps_impl_def chirps_run_def run_etl_def
          get_dataset_manager_from_name_def DatasetManager_init_def default_args_def)
  from run_etl_only_update_input [of ?r chirps_tree ?i 4] h
  show ?thesis by blast
qed

section \<open>Mappers\<close>

lemma S3_fs_keeps:
  "S3_fs r s w = (fs, s1, w1) \<Longrightarrow>
     next_id w \<le> next_id w1 \<and> s3_mapper s1 = s3_mapper s \<and> bucket s1 = bucket s"
  by (auto simp: S3_fs_def fresh_def emit_def Let_def split: if_splits option.splits)

lemma S3_mapper_hit: "s3_mapper s = Some m \<Longrightarrow> S3_mapper k False s w = (m, s, w)"
  by (simp add: S3_mapper_def)

lemma S3_mapper_caches: "S3_mapper k r s w = (m, s1, w1) \<Longrightarrow> s3_mapper s1 = Some m"
  by (auto simp: S3_mapper_def fresh_def emit_def Let_def split: if_splits option.splits prod.splits)

lemma S3_mapper_new:
  assumes "S3_mapper k r s w = (m, s1, w1)" and "r \<or> s3_mapper s = None"
  shows "next_id w \<le> mapper_id m \<and> mapper_id m < next_id w1
         \<and> (\<exists>tr. trace w1 = tr @ [NewS3Map (mapper_id m)])"
proof -
  obtain fs s' w' where f: "S3_fs False s w = (fs, s', w')"
    by (cases "S3_fs False s w")
  then have n: "next_id w \<le> next_id w'" using S3_fs_keeps by blast
  have "(if r then None else s3_mapper s) = None" using assms(2) by auto
  then have "m = S3Map (next_id w') (S3_url k s) fs
      \<and> w1 = emit (NewS3Map (next_id w')) (w'\<lparr>next_id := Suc (next_id w')\<rparr>)"
    using assms(1) f by (auto simp: S3_mapper_def fresh_def Let_def)
  then show ?thesis using n by (simp add: mapper_id_def emit_def)
qed

lemma S3_mapper_below:
  assumes "S3_below s w" and "S3_mapper k r s w = (m, s1, w1)"
  shows "mapper_id m < next_id w1"
proof (cases "r \<or> s3_mapper s = None")
  case True
  then show ?thesis using S3_mapper_new assms(2) by blast
next
  case False
  then obtain m0 where "s3_mapper s = Some m0" "\<not> r" by auto
  then show ?thesis using assms S3_mapper_hit [of s m0 k w] by (simp add: S3_below_def)
qed

lemma Local_fs_keeps:
  "Local_fs r l w = (fs, l1, w1) \<Longrightarrow> next_id w \<le> next_id w1 \<and> local_mapper l1 = local_mapper l"
  by (auto simp: Local_fs_def fresh_def emit_def Let_def split: if_splits option.splits)

lemma Local_mapper_hit: "local_mapper l = Some m \<Longrightarrow> Local_mapper p nm False l w = (m, l, w)"
  by (simp add: Local_mapper_def)

lemma Local_mapper_caches: "Local_mapper p nm r l w = (m, l1, w1) \<Longrightarrow> local_mapper l1 = Some m"
  by (auto simp: Local_mapper_def fresh_def emit_def Let_def split: if_splits option.splits prod.splits)

lemma Local_mapper_new:
  assumes "Local_mapper p nm r l w = (m, l1, w1)" and "r \<or> local_mapper l = None"
  shows "next_id w \<le> mapper_id m \<and> mapper_id m < next_id w1
         \<and> (\<exists>tr. trace w1 = tr @ [GetMapper (mapper_id m)])"
proof -
  obtain fs l' w' where f: "Local_fs False l w = (fs, l', w')"
    by (cases "Local_fs False l w")
  then have n: "next_id w \<le> next_id w'" using Local_fs_keeps by blast
  have "(if r then None else local_mapper l) = None" using assms(2) by auto
  then have "m = FSMap (next_id w') (Local_path p nm) fs
      \<and> w1 = emit (GetMapper (next_id w')) (w'\<lparr>next_id := Suc (next_id w')\<rparr>)"
    using assms(1) f by (auto simp: Local_mapper_def fresh_def Let_def)
  then show ?thesis using n by (simp add: mapper_id_def emit_def)
qed

lemma Local_mapper_below:
  assumes "Local_below l w" and "Local_mapper p nm r l w = (m, l1, w1)"
  shows "mapper_id m < next_id w1"
proof (cases "r \<or> local_mapper l = None")
  case True
  then show ?thesis using Local_mapper_new assms(2) by blast
next
  case False
  then obtain m0 where "local_mapper l = Some m0" "\<not> r" by auto
  then show ?thesis using assms Local_mapper_hit [of l m0 p nm w] by (simp add: Local_below_def)
qed

text \<open>
  The bound on the cached mapper holds for every constructed store and is kept by every
  call, so it holds in every state a store can reach.
\<close>

lemma S3_below_init: "S3_init b = Inr s \<Longrightarrow> S3_below s w"
  by (auto simp: S3_init_def S3_below_def split: if_splits option.splits)

lemma S3_below_fs: "S3_below s w \<Longrightarrow> S3_fs r s w = (fs, s1, w1) \<Longrightarrow> S3_below s1 w1"
  using S3_fs_keeps [of r s w fs s1 w1]
  by (auto simp: S3_below_def split: option.splits)

lemma S3_below_mapper: "S3_below s w \<Longrightarrow> S3_mapper k r s w = (m, s1, w1) \<Longrightarrow> S3_below s1 w1"
  using S3_mapper_below [of s w k r m s1 w1] S3_mapper_caches [of k r s w m s1 w1]
  by (simp add: S3_below_def)

lemma Local_below_init: "Local_below \<lparr>local_fs = None, local_mapper = None\<rparr> w"
  by (simp add: Local_below_def)

lemma Local_below_fs:
  "Local_below l w \<Longrightarrow> Local_fs r l w = (fs, l1, w1) \<Longrightarrow> Local_below l1 w1"
  using Local_fs_keeps [of r l w fs l1 w1]
  by (auto simp: Local_below_def split: option.splits)

lemma Local_below_mapper:
  "Local_below l w \<Longrightarrow> Local_mapper p nm r l w = (m, l1, w1) \<Longrightarrow> Local_below l1 w1"
  using Local_mapper_below [of l w p nm r m l1 w1] Local_mapper_caches [of p nm r l w m l1 w1]
  by (simp add: Local_below_def)

lemma IPLD_mapper_new:
  "mapper_id (fst (IPLD_mapper ch sr w)) = next_id w
   \<and> next_id (snd (IPLD_mapper ch sr w)) = Suc (next_id w)"
  by (simp add: IPLD_mapper_def fresh_def emit_def latest_hash_def mapper_id_def Let_def
           split: option.splits)

text \<open>
  C7, as stated, fails for the IPLD variant: two calls in a row, neither asking for a
  refresh, return two different mappers.
\<close>

theorem IPLD_mapper_not_cached_counterexample:
  "fst (IPLD_mapper None True example_world) = IPLDStore 0 ''size-262144'' (Some ''bafyroot'')
   \<and> fst (IPLD_mapper None True (snd (IPLD_mapper None True example_world)))
       = IPLDStore 1 ''size-262144'' (Some ''bafyroot'')"
  by (simp add: IPLD_mapper_def example_world_def fresh_def emit_def latest_hash_def truthy_def
        Let_def)

text \<open>
  C7, amended. For the S3 and the Local variant the mapper is created on first request
  and cached: a constructed store holds none; a call on a store that holds none creates
  one and keeps it; after any call, a call without refresh returns the same mapper and
  changes nothing; a call with refresh creates a new mapper, different from the cached
  one (in any state a store can reach, where the cached mapper was allocated earlier),
  and keeps it in its place. The IPLD variant keeps no mapper and has no refresh
  option: every call obtains a new mapper from the client.
\<close>

theorem mapper_cached_S3_Local:
  "(S3_init b = Inr s0 \<longrightarrow> s3_mapper s0 = None)
   \<and> (s3_mapper s = None \<and> S3_mapper k r s w = (m, s1, w1) \<longrightarrow>
        s3_mapper s1 = Some m \<and> (\<exists>tr. trace w1 = tr @ [NewS3Map (mapper_id m)]))
   \<and> (S3_mapper k r s w = (m, s1, w1) \<longrightarrow> S3_mapper k False s1 w1 = (m, s1, w1))
   \<and> (S3_below s w \<and> S3_mapper k r s w = (m, s1, w1)
        \<and> S3_mapper k True s1 w1 = (m2, s2, w2) \<longrightarrow>
        s3_mapper s2 = Some m2 \<and> mapper_id m2 \<noteq> mapper_id m
        \<and> (\<exists>tr. trace w2 = tr @ [NewS3Map (mapper_id m2)]))
   \<and> (local_mapper l = None \<and> Local_mapper p nm q l v = (n, l1, v1) \<longrightarrow>
        local_mapper l1 = Some n \<and> (\<exists>tr. trace v1 = tr @ [GetMapper (mapper_id n)]))
   \<and> (Local_mapper p nm q l v = (n, l1, v1) \<longrightarrow> Local_mapper p nm False l1 v1 = (n, l1, v1))
   \<and> (Local_below l v \<and> Local_mapper p nm q l v = (n, l1, v1)
        \<and> Local_mapper p nm True l1 v1 = (n2, l2, v2) \<longrightarrow>
        local_mapper l2 = Some n2 \<and> mapper_id n2 \<noteq> mapper_id n
        \<and> (\<exists>tr. trace v2 = tr @ [GetMapper (mapper_id n2)]))
   \<and> mapper_id (fst (IPLD_mapper ch sr u)) = next_id u
   \<and> next_id (snd (IPLD_mapper ch sr u)) = Suc (next_id u)"
proof -
  have a1: "S3_init b = Inr s0 \<longrightarrow> s3_mapper s0 = None"
    by (auto simp: S3_init_def split: if_splits option.splits)
  have a2: "s3_mapper s = None \<and> S3_mapper k r s w = (m, s1, w1) \<longrightarrow>
        s3_mapper s1 = Some m \<and> (\<exists>tr. trace w1 = tr @ [NewS3Map (mapper_id m)])"
    using S3_mapper_caches S3_mapper_new by blast
  have a3: "S3_mapper k r s w = (m, s1, w1) \<longrightarrow> S3_mapper k False s1 w1 = (m, s1, w1)"
    using S3_mapper_caches S3_mapper_hit by blast
  have a4: "S3_below s w \<and> S3_mapper k r s w = (m, s1, w1)
        \<and> S3_mapper k True s1 w1 = (m2, s2, w2) \<longrightarrow>
        s3_mapper s2 = Some m2 \<and> mapper_id m2 \<noteq> mapper_id m
        \<and> (\<exists>tr. trace w2 = tr @ [NewS3Map (mapper_id m2)])"
  proof
    assume h: "S3_below s w \<and> S3_mapper k r s w = (m, s1, w1)
        \<and> S3_mapper k True s1 w1 = (m2, s2, w2)"
    then have "mapper_id m < next_id w1" using S3_mapper_below by blast
    moreover have "next_id w1 \<le> mapper_id m2 \<and> (\<exists>tr. trace w2 = tr @ [NewS3Map (mapper_id m2)])"
      using h S3_mapper_new [of k True s1 w1 m2 s2 w2] by simp
    moreover have "s3_mapper s2 = Some m2" using h S3_mapper_caches by blast
    ultimately show "s3_mapper s2 = Some m2 \<and> mapper_id m2 \<noteq> mapper_id m
        \<and> (\<exists>tr. trace w2 = tr @ [NewS3Map (mapper_id m2)])" by simp
  qed
  have b2: "local_mapper l = None \<and> Local_mapper p nm q l v = (n, l1, v1) \<longrightarrow>
        local_mapper l1 = Some n \<and> (\<exists>tr. trace v1 = tr @ [GetMapper (mapper_id n)])"
    using Local_mapper_caches Local_mapper_new by blast
  have b3: "Local_mapper p nm q l v = (n, l1, v1) \<longrightarrow> Local_mapper p nm False l1 v1 = (n, l1, v1)"
    using Local_mapper_caches Local_mapper_hit by blast
  have b4: "Local_below l v \<and> Local_mapper p nm q l v = (n, l1, v1)
        \<and> Local_mapper p nm True l1 v1 = (n2, l2, v2) \<longrightarrow>
        local_mapper l2 = Some n2 \<and> mapper_id n2 \<noteq> mapper_id n
        \<and> (\<exists>tr. trace v2 = tr @ [GetMapper (mapper_id n2)])"
  proof
    assume h: "Local_below l v \<and> Local_mapper p nm q l v = (n, l1, v1)
        \<and> Local_mapper p nm True l1 v1 = (n2, l2, v2)"
    then have "mapper_id n < next_id v1" using Local_mapper_below by blast
    moreover have "next_id v1 \<le> mapper_id n2 \<and> (\<exists>tr. trace v2 = tr @ [GetMapper (mapper_id n2)])"
      using h Local_mapper_new [of p nm True l1 v1 n2 l2 v2] by simp
    moreover have "local_mapper l2 = Some n2" using h Local_mapper_caches by blast
    ultimately show "local_mapper l2 = Some n2 \<and> mapper_id n2 \<noteq> mapper_id n
        \<and> (\<exists>tr. trace v2 = tr @ [GetMapper (mapper_id n2)])" by simp
  qed
  show ?thesis using a1 a2 a3 a4 b2 b3 b4 IPLD_mapper_new by blast
qed

theorem mapper_cached_S3_Local_witness:
  "\<exists>s0 m s1 w1 m2 s2 w2 n l1 v1 n2 l2 v2.
     S3_init (Some ''arbol'') = Inr s0 \<and> s3_mapper s0 = None \<and> S3_below s0 example_world
     \<and> S3_mapper ''chirps-daily'' False s0 example_world = (m, s1, w1)
     \<and> S3_mapper ''chirps-daily'' True s1 w1 = (m2, s2, w2)
     \<and> s3_mapper s1 = Some m \<and> S3_mapper ''chirps-daily'' False s1 w1 = (m, s1, w1)
     \<and> s3_mapper s2 = Some m2 \<and> mapper_id m2 \<noteq> mapper_id m
     \<and> local_mapper \<lparr>local_fs = None, local_mapper = None\<rparr> = None
     \<and> Local_below \<lparr>local_fs = None, local_mapper = None\<rparr> example_world
     \<and> Local_mapper (Path ''/data'') ''chirps'' False
          \<lparr>local_fs = None, local_mapper = None\<rparr> example_world = (n, l1, v1)
     \<and> Local_mapper (Path ''/data'') ''chirps'' True l1 v1 = (n2, l2, v2)
     \<and> local_mapper l1 = Some n
     \<and> Local_mapper (Path ''/data'') ''chirps'' False l1 v1 = (n, l1, v1)
     \<and> local_mapper l2 = Some n2 \<and> mapper_id n2 \<noteq> mapper_id n"
proof -
  let ?l = "\<lparr>local_fs = None, local_mapper = None\<rparr>"
  obtain s0 where s0: "S3_init (Some ''arbol'') = Inr s0" and e: "s3_mapper s0 = None"
    by (simp add: S3_init_def truthy_def)
  have bl: "S3_below s0 example_world" using e by (simp add: S3_below_def)
  obtain m s1 w1 where c1: "S3_mapper ''chirps-daily'' False s0 example_world = (m, s1, w1)"
    by (cases "S3_mapper ''chirps-daily'' False s0 example_world")
  obtain m2 s2 w2 where c2: "S3_mapper ''chirps-daily'' True s1 w1 = (m2, s2, w2)"
    by (cases "S3_mapper ''chirps-daily'' True s1 w1")
  have le: "local_mapper ?l = None" by simp
  have ll: "Local_below ?l example_world" by (simp add: Local_below_def)
  obtain n l1 v1 where d1: "Local_mapper (Path ''/data'') ''chirps'' False ?l example_world = (n, l1, v1)"
    by (cases "Local_mapper (Path ''/data'') ''chirps'' False ?l example_world")
  obtain n2 l2 v2 where d2: "Local_mapper (Path ''/data'') ''chirps'' True l1 v1 = (n2, l2, v2)"
    by (cases "Local_mapper (Path ''/data'') ''chirps'' True l1 v1")
  from mapper_cached_S3_Local [of "Some ''arbol''" s0 s0 "''chirps-daily''" False example_world
      m s1 w1 m2 s2 w2 ?l "Path ''/data''" "''chirps''" False example_world n l1 v1 n2 l2 v2]
    s0 e bl c1 c2 le ll d1 d2
  show ?thesis by blast
qed

text \<open>
  C8. For the IPLD variant: \<open>has_existing\<close> is false exactly when the latest-hash lookup
  gives \<open>None\<close> or the empty string; a call of \<open>mapper\<close> with \<open>set_root = False\<close> adds no
  latest-hash lookup to the events and returns an unrooted mapper; a call with
  \<open>set_root = True\<close> while a latest hash exists returns a mapper rooted at that hash.
\<close>

theorem IPLD_has_existing_and_mapper:
  "((\<not> fst (IPLD_has_existing w)) = (latest w = None \<or> latest w = Some []))
   \<and> (\<exists>ev. trace (snd (IPLD_mapper ch False w)) = trace w @ ev \<and> LatestHash \<notin> set ev)
   \<and> root_of (fst (IPLD_mapper ch False w)) = None
   \<and> (latest w = Some h \<and> h \<noteq> [] \<longrightarrow> root_of (fst (IPLD_mapper ch True w)) = Some h)"
  by (auto simp: IPLD_has_existing_def IPLD_mapper_def latest_hash_def truthy_def fresh_def
        emit_def root_of_def Let_def split: option.splits)

theorem IPLD_has_existing_and_mapper_witness:
  "latest example_world = Some ''bafyroot'' \<and> ''bafyroot'' \<noteq> []
   \<and> root_of (fst (IPLD_mapper None True example_world)) = Some ''bafyroot''
   \<and> fst (IPLD_has_existing example_world)
   \<and> \<not> fst (IPLD_has_existing (example_world\<lparr>latest := None\<rparr>))"
proof -
  have h: "latest example_world = Some ''bafyroot'' \<and> ''bafyroot'' \<noteq> []"
    by (simp add: example_world_def)
  have n: "latest (example_world\<lparr>latest := None\<rparr>) = None" by simp
  from IPLD_has_existing_and_mapper [of example_world None "''bafyroot''"]
       IPLD_has_existing_and_mapper [of "example_world\<lparr>latest := None\<rparr>" None "''bafyroot''"] h n
  show ?thesis by simp
qed

end
